theory Spec2Isabelle
  imports Complex_Main "HOL-Library.Word"
begin

section \<open>The GPIO harness: data model (GpioComprehensiveTest.cpp)\<close>

text \<open>
  \<^verbatim>\<open>enum class GpioTestSection\<close> has the underlying type \<^verbatim>\<open>int\<close>: a value
  that is none of the seven enumerators can be passed to every method (the \<^verbatim>\<open>default\<close>
  branch of \<^verbatim>\<open>gpioTestSectionToString\<close> answers such a value), and \<^verbatim>\<open>std::map\<close> orders
  the keys by their integer value. The keys are therefore integers, and the enumerators
  are the constants 0 to 6.
\<close>

type_synonym GpioTestSection = int

definition BASIC_GPIO_OPERATIONS :: GpioTestSection where "BASIC_GPIO_OPERATIONS = 0"
definition GPIO_INTERRUPTS :: GpioTestSection where "GPIO_INTERRUPTS = 1"
definition GPIO_PWM_FUNCTIONALITY :: GpioTestSection where "GPIO_PWM_FUNCTIONALITY = 2"
definition GPIO_ANALOG_READS :: GpioTestSection where "GPIO_ANALOG_READS = 3"
definition GPIO_STRESS_TESTING :: GpioTestSection where "GPIO_STRESS_TESTING = 4"
definition GPIO_EDGE_CASES :: GpioTestSection where "GPIO_EDGE_CASES = 5"
definition ALL_SECTIONS :: GpioTestSection where "ALL_SECTIONS = 6"

text \<open>
  \<^verbatim>\<open>struct TestResult\<close>. A \<^verbatim>\<open>double\<close> that holds a time is a real number here (rounding
  is not modelled); the result of a \<^verbatim>\<open>double\<close> division is a \<open>dbl\<close>, which keeps the
  values a zero divisor produces.
\<close>

record TestResult =
  test_name :: string
  passed :: bool
  message :: string
  execution_time_ms :: real

datatype dbl = Finite real | PosInf | NegInf | NaN

definition ddiv :: "real \<Rightarrow> real \<Rightarrow> dbl" where
  "ddiv x y =
     (if y = 0 then (if x = 0 then NaN else if 0 < x then PosInf else NegInf)
      else Finite (x / y))"

text \<open>
  A test is a \<^verbatim>\<open>std::function<TestResult()>\<close>. What a call does lies outside the harness:
  in the world \<open>w\<close> it either returns a result, after the wall-clock time that the two
  readings of \<^verbatim>\<open>high_resolution_clock\<close> around the call measure, or it throws; either way
  it leaves a new world. The tests are private to the class and capture nothing, so a
  call cannot touch the members of the harness.
\<close>

datatype 'w call = Returns TestResult real 'w | Throws 'w

type_synonym 'w test_fn = "'w \<Rightarrow> 'w call"

record 'w TestSection =
  name :: string
  description :: string
  tests :: "'w test_fn list"
  enabled :: bool
  timeout_seconds :: int

definition TestSection_new :: "string \<Rightarrow> string \<Rightarrow> bool \<Rightarrow> int \<Rightarrow> 'w TestSection" where
  "TestSection_new n desc en timeout =
     \<lparr>name = n, description = desc, tests = [], enabled = en, timeout_seconds = timeout\<rparr>"

record TestConfig =
  verbose_output :: bool
  stop_on_failure :: bool
  generate_report :: bool
  report_filename :: string
  default_timeout_seconds :: int

definition TestConfig_new :: TestConfig where
  "TestConfig_new =
     \<lparr>verbose_output = False, stop_on_failure = False, generate_report = True,
      report_filename = ''gpio_test_report.txt'', default_timeout_seconds = 30\<rparr>"

text \<open>
  What the methods write to \<^verbatim>\<open>std::cout\<close>, one event for each group of output
  statements. The three lines with which \<^verbatim>\<open>runSection\<close> can begin (the error, the
  "disabled" line, the header) print at most the name of the section; their events keep
  the key that was passed, so that the calls of \<^verbatim>\<open>runSection\<close> can be read back from the
  console.
\<close>

datatype event =
    Error_section_not_found GpioTestSection
  | Section_disabled GpioTestSection string
  | Section_header GpioTestSection string string
  | Test_progress nat nat
  | Test_verdict bool real
  | Test_message string
  | Section_summary string nat int int dbl
  | Run_all_banner
  | Overall_summary int int int dbl real
  | Available_sections
  | Listed GpioTestSection bool string string nat
  | Enabled_sections
  | Listed_enabled GpioTestSection string string nat int

text \<open>
  \<^verbatim>\<open>class GpioComprehensiveTest\<close>: the three members, then the world the tests act on and
  the console. \<^verbatim>\<open>std::map\<close> is the list of its entries in ascending order of the keys,
  the order in which the range-based loops visit them.
\<close>

record 'w GpioComprehensiveTest =
  test_sections :: "(GpioTestSection \<times> 'w TestSection) list"
  all_results :: "TestResult list"
  config :: TestConfig
  world :: 'w
  console :: "event list"

subsection \<open>std::map\<close>

text \<open>\<^verbatim>\<open>m[k] = v\<close>: overwrites the entry of \<open>k\<close>, or inserts one at its place in the order.\<close>

fun map_assign :: "int \<Rightarrow> 'v \<Rightarrow> (int \<times> 'v) list \<Rightarrow> (int \<times> 'v) list" where
  "map_assign k v [] = [(k, v)]"
| "map_assign k v ((k', v') # m) =
     (if k < k' then (k, v) # (k', v') # m
      else if k = k' then (k, v) # m
      else (k', v') # map_assign k v m)"

text \<open>A write through the reference \<^verbatim>\<open>m[k]\<close> of a key that \<^verbatim>\<open>find\<close> has found.\<close>

definition map_modify :: "int \<Rightarrow> ('v \<Rightarrow> 'v) \<Rightarrow> (int \<times> 'v) list \<Rightarrow> (int \<times> 'v) list" where
  "map_modify k f m = map (\<lambda>(k', v). if k' = k then (k', f v) else (k', v)) m"

definition print :: "event \<Rightarrow> 'w GpioComprehensiveTest \<Rightarrow> 'w GpioComprehensiveTest" where
  "print e self = self\<lparr>console := console self @ [e]\<rparr>"

subsection \<open>runSection\<close>

text \<open>
  An exception that a test throws is caught nowhere in this file: it leaves the method,
  and the model returns \<open>Inl\<close> with the harness as the exception found it.
\<close>

datatype fault = Uncaught_exception

type_synonym 'w outcome = "(fault \<times> 'w GpioComprehensiveTest) + 'w GpioComprehensiveTest"

text \<open>
  The \<^verbatim>\<open>for\<close> loop of \<^verbatim>\<open>runSection\<close> over the tests from index \<open>i\<close> on; \<open>n\<close> is
  \<^verbatim>\<open>test_section.tests.size()\<close>, and the triple holds the locals \<^verbatim>\<open>section_results\<close>,
  \<^verbatim>\<open>passed\<close> and \<^verbatim>\<open>failed\<close>.
\<close>

fun run_tests ::
  "'w test_fn list \<Rightarrow> nat \<Rightarrow> nat \<Rightarrow> TestResult list \<times> int \<times> int \<Rightarrow> 'w GpioComprehensiveTest \<Rightarrow>
   (fault \<times> 'w GpioComprehensiveTest) + ((TestResult list \<times> int \<times> int) \<times> 'w GpioComprehensiveTest)"
where
  "run_tests [] i n locals self = Inr (locals, self)"
| "run_tests (t # ts) i n (section_results, npassed, nfailed) self =
     (let s1 = print (Test_progress (i + 1) n) self in
      case t (world s1) of
        Throws w' \<Rightarrow> Inl (Uncaught_exception, s1\<lparr>world := w'\<rparr>)
      | Returns r elapsed w' \<Rightarrow>
          let result = r\<lparr>execution_time_ms := elapsed\<rparr>;
              npassed' = (if passed result then npassed + 1 else npassed);
              nfailed' = (if passed result then nfailed else nfailed + 1);
              s2 = print (Test_verdict (passed result) (execution_time_ms result)) (s1\<lparr>world := w'\<rparr>);
              s3 = (if message result \<noteq> [] then print (Test_message (message result)) s2 else s2);
              s4 = s3\<lparr>all_results := all_results s3 @ [result]\<rparr>
          in run_tests ts (i + 1) n (section_results @ [result], npassed', nfailed') s4)"

definition runSection :: "GpioTestSection \<Rightarrow> 'w GpioComprehensiveTest \<Rightarrow> 'w outcome" where
  "runSection section self =
     (case map_of (test_sections self) section of
        None \<Rightarrow> Inr (print (Error_section_not_found section) self)
      | Some test_section \<Rightarrow>
          if \<not> enabled test_section then
            Inr (print (Section_disabled section (name test_section)) self)
          else
            let s1 = print (Section_header section (name test_section) (description test_section)) self;
                n = length (tests test_section)
            in case run_tests (tests test_section) 0 n ([], 0, 0) s1 of
                 Inl e \<Rightarrow> Inl e
               | Inr ((section_results, npassed, nfailed), s2) \<Rightarrow>
                   Inr (print (Section_summary (name test_section) n npassed nfailed
                                 (ddiv (real_of_int npassed * 100) (real n))) s2))"

subsection \<open>Accessors and configuration methods\<close>

text \<open>
  The counters are \<^verbatim>\<open>int\<close>s that count the elements of a vector. A vector long enough to
  overflow them does not fit the memory of the targets, so they are integers here.
\<close>

definition getTotalTestCount :: "'w GpioComprehensiveTest \<Rightarrow> int" where
  "getTotalTestCount self = int (length (all_results self))"

definition getPassedTestCount :: "'w GpioComprehensiveTest \<Rightarrow> int" where
  "getPassedTestCount self = fold (\<lambda>result p. if passed result then p + 1 else p) (all_results self) 0"

definition getFailedTestCount :: "'w GpioComprehensiveTest \<Rightarrow> int" where
  "getFailedTestCount self = fold (\<lambda>result f. if \<not> passed result then f + 1 else f) (all_results self) 0"

definition getTotalExecutionTime :: "'w GpioComprehensiveTest \<Rightarrow> real" where
  "getTotalExecutionTime self = fold (\<lambda>result t. t + execution_time_ms result) (all_results self) 0"

definition getAverageExecutionTime :: "'w GpioComprehensiveTest \<Rightarrow> dbl" where
  "getAverageExecutionTime self =
     (if all_results self = [] then Finite 0
      else ddiv (getTotalExecutionTime self) (real (length (all_results self))))"

definition clearResults :: "'w GpioComprehensiveTest \<Rightarrow> 'w GpioComprehensiveTest" where
  "clearResults self = self\<lparr>all_results := []\<rparr>"

definition hasFailures :: "'w GpioComprehensiveTest \<Rightarrow> bool" where
  "hasFailures self = (find (\<lambda>result. \<not> passed result) (all_results self) \<noteq> None)"

definition enableSection :: "GpioTestSection \<Rightarrow> bool \<Rightarrow> 'w GpioComprehensiveTest \<Rightarrow> 'w GpioComprehensiveTest" where
  "enableSection section enable self =
     (if map_of (test_sections self) section \<noteq> None
      then self\<lparr>test_sections := map_modify section (\<lambda>s. s\<lparr>enabled := enable\<rparr>) (test_sections self)\<rparr>
      else self)"

definition setSectionTimeout :: "GpioTestSection \<Rightarrow> int \<Rightarrow> 'w GpioComprehensiveTest \<Rightarrow> 'w GpioComprehensiveTest" where
  "setSectionTimeout section timeout self =
     (if map_of (test_sections self) section \<noteq> None
      then self\<lparr>test_sections := map_modify section (\<lambda>s. s\<lparr>timeout_seconds := timeout\<rparr>) (test_sections self)\<rparr>
      else self)"

definition isSectionEnabled :: "GpioTestSection \<Rightarrow> 'w GpioComprehensiveTest \<Rightarrow> bool" where
  "isSectionEnabled section self =
     (case map_of (test_sections self) section of Some s \<Rightarrow> enabled s | None \<Rightarrow> False)"

definition getSectionTestCount :: "GpioTestSection \<Rightarrow> 'w GpioComprehensiveTest \<Rightarrow> int" where
  "getSectionTestCount section self =
     (case map_of (test_sections self) section of Some s \<Rightarrow> int (length (tests s)) | None \<Rightarrow> 0)"


subsection \<open>Runs over several sections\<close>

definition printOverallSummary :: "'w GpioComprehensiveTest \<Rightarrow> 'w GpioComprehensiveTest" where
  "printOverallSummary self =
     (let total_tests = int (length (all_results self));
          npassed = fold (\<lambda>result p. if passed result then p + 1 else p) (all_results self) 0;
          nfailed = fold (\<lambda>result f. if passed result then f else f + 1) (all_results self) 0;
          total_time = fold (\<lambda>result t. t + execution_time_ms result) (all_results self) 0
      in print (Overall_summary total_tests npassed nfailed
                  (ddiv (real_of_int npassed * 100) (real_of_int total_tests)) total_time) self)"

text \<open>
  The loop of \<^verbatim>\<open>runAllSections\<close> over the entries of the map. \<^verbatim>\<open>runSection\<close> neither
  inserts nor erases an entry, so the loop visits the keys that the map held when it
  started.
\<close>

fun run_all_loop :: "(GpioTestSection \<times> 'w TestSection) list \<Rightarrow> 'w GpioComprehensiveTest \<Rightarrow> 'w outcome" where
  "run_all_loop [] self = Inr self"
| "run_all_loop ((section, _) # rest) self =
     (if section \<noteq> ALL_SECTIONS then
        (case runSection section self of
           Inl e \<Rightarrow> Inl e
         | Inr s1 \<Rightarrow> run_all_loop rest s1)
      else run_all_loop rest self)"

definition runAllSections :: "'w GpioComprehensiveTest \<Rightarrow> 'w outcome" where
  "runAllSections self =
     (let s1 = print Run_all_banner self in
      case run_all_loop (test_sections s1) s1 of
        Inl e \<Rightarrow> Inl e
      | Inr s2 \<Rightarrow> Inr (printOverallSummary s2))"

fun runSelectedSections :: "GpioTestSection list \<Rightarrow> 'w GpioComprehensiveTest \<Rightarrow> 'w outcome" where
  "runSelectedSections [] self = Inr self"
| "runSelectedSections (section # sections) self =
     (case runSection section self of
        Inl e \<Rightarrow> Inl e
      | Inr s1 \<Rightarrow> runSelectedSections sections s1)"

definition enableAllSections :: "'w GpioComprehensiveTest \<Rightarrow> 'w GpioComprehensiveTest" where
  "enableAllSections self =
     self\<lparr>test_sections :=
       map (\<lambda>(section, test_section).
              if section \<noteq> ALL_SECTIONS then (section, test_section\<lparr>enabled := True\<rparr>)
              else (section, test_section))
           (test_sections self)\<rparr>"

definition disableAllSections :: "'w GpioComprehensiveTest \<Rightarrow> 'w GpioComprehensiveTest" where
  "disableAllSections self =
     self\<lparr>test_sections :=
       map (\<lambda>(section, test_section).
              if section \<noteq> ALL_SECTIONS then (section, test_section\<lparr>enabled := False\<rparr>)
              else (section, test_section))
           (test_sections self)\<rparr>"

definition getEnabledSections :: "'w GpioComprehensiveTest \<Rightarrow> GpioTestSection list" where
  "getEnabledSections self =
     map fst (filter (\<lambda>(section, test_section). section \<noteq> ALL_SECTIONS \<and> enabled test_section)
                (test_sections self))"

text \<open>\<^verbatim>\<open>listSections\<close> and \<^verbatim>\<open>listEnabledSections\<close>: one entry for each section they print.\<close>

definition listSections :: "'w GpioComprehensiveTest \<Rightarrow> 'w GpioComprehensiveTest" where
  "listSections self =
     fold (\<lambda>(section, test_section) s.
             if section \<noteq> ALL_SECTIONS
             then print (Listed section (enabled test_section) (name test_section)
                           (description test_section) (length (tests test_section))) s
             else s)
          (test_sections self) (print Available_sections self)"

definition listEnabledSections :: "'w GpioComprehensiveTest \<Rightarrow> 'w GpioComprehensiveTest" where
  "listEnabledSections self =
     fold (\<lambda>(section, test_section) s.
             if section \<noteq> ALL_SECTIONS \<and> enabled test_section
             then print (Listed_enabled section (name test_section) (description test_section)
                           (length (tests test_section)) (timeout_seconds test_section)) s
             else s)
          (test_sections self) (print Enabled_sections self)"

definition setConfig :: "TestConfig \<Rightarrow> 'w GpioComprehensiveTest \<Rightarrow> 'w GpioComprehensiveTest" where
  "setConfig cfg self = self\<lparr>config := cfg\<rparr>"

subsection \<open>Construction\<close>

text \<open>
  The twenty-six static test functions are placeholders that return a passing result
  and touch nothing. \<open>elapsed\<close> is the time the clock of the platform measures around such
  a call.
\<close>

definition placeholder :: "('w \<Rightarrow> real) \<Rightarrow> string \<Rightarrow> 'w test_fn" where
  "placeholder elapsed n w =
     Returns \<lparr>test_name = n, passed = True, message = ''Test passed successfully'',
              execution_time_ms = 0\<rparr> (elapsed w) w"

definition populateTestSections :: "('w \<Rightarrow> real) \<Rightarrow> 'w GpioComprehensiveTest \<Rightarrow> 'w GpioComprehensiveTest" where
  "populateTestSections elapsed self =
     (let m0 = test_sections self;
          m1 = map_modify BASIC_GPIO_OPERATIONS (\<lambda>s. s\<lparr>tests :=
                 [placeholder elapsed ''GPIO Pin Configuration'',
                  placeholder elapsed ''GPIO Digital Write'',
                  placeholder elapsed ''GPIO Digital Read'',
                  placeholder elapsed ''GPIO Pin Mode'',
                  placeholder elapsed ''GPIO Pull-up/Pull-down'']\<rparr>) m0;
          m2 = map_modify GPIO_INTERRUPTS (\<lambda>s. s\<lparr>tests :=
                 [placeholder elapsed ''GPIO Rising Edge Interrupt'',
                  placeholder elapsed ''GPIO Falling Edge Interrupt'',
                  placeholder elapsed ''GPIO Both Edge Interrupt'',
                  placeholder elapsed ''GPIO Interrupt Debouncing'',
                  placeholder elapsed ''GPIO Interrupt Priority'']\<rparr>) m1;
          m3 = map_modify GPIO_PWM_FUNCTIONALITY (\<lambda>s. s\<lparr>tests :=
                 [placeholder elapsed ''GPIO PWM Frequency'',
                  placeholder elapsed ''GPIO PWM Duty Cycle'',
                  placeholder elapsed ''GPIO PWM Resolution'',
                  placeholder elapsed ''GPIO PWM Stability'']\<rparr>) m2;
          m4 = map_modify GPIO_ANALOG_READS (\<lambda>s. s\<lparr>tests :=
                 [placeholder elapsed ''GPIO ADC Resolution'',
                  placeholder elapsed ''GPIO ADC Accuracy'',
                  placeholder elapsed ''GPIO ADC Linearity'',
                  placeholder elapsed ''GPIO ADC Noise'']\<rparr>) m3;
          m5 = map_modify GPIO_STRESS_TESTING (\<lambda>s. s\<lparr>tests :=
                 [placeholder elapsed ''GPIO High Frequency Toggle'',
                  placeholder elapsed ''GPIO Load Handling'',
                  placeholder elapsed ''GPIO Temperature Stability'',
                  placeholder elapsed ''GPIO Long-term Reliability'']\<rparr>) m4;
          m6 = map_modify GPIO_EDGE_CASES (\<lambda>s. s\<lparr>tests :=
                 [placeholder elapsed ''GPIO Invalid Pin Numbers'',
                  placeholder elapsed ''GPIO Invalid Configurations'',
                  placeholder elapsed ''GPIO Boundary Values'',
                  placeholder elapsed ''GPIO Error Recovery'']\<rparr>) m5
      in self\<lparr>test_sections := m6\<rparr>)"

definition initializeTestSections :: "('w \<Rightarrow> real) \<Rightarrow> 'w GpioComprehensiveTest \<Rightarrow> 'w GpioComprehensiveTest" where
  "initializeTestSections elapsed self =
     (let m0 = test_sections self;
          m1 = map_assign BASIC_GPIO_OPERATIONS (TestSection_new ''Basic GPIO Operations''
                 ''Tests basic GPIO functionality including pin configuration, read/write operations''
                 True 25) m0;
          m2 = map_assign GPIO_INTERRUPTS (TestSection_new ''GPIO Interrupts''
                 ''Tests GPIO interrupt functionality, edge detection, and interrupt handling''
                 True 35) m1;
          m3 = map_assign GPIO_PWM_FUNCTIONALITY (TestSection_new ''GPIO PWM Functionality''
                 ''Tests PWM generation, frequency control, and duty cycle accuracy''
                 True 40) m2;
          m4 = map_assign GPIO_ANALOG_READS (TestSection_new ''GPIO Analog Reads''
                 ''Tests analog input functionality, ADC accuracy, and voltage measurement''
                 True 30) m3;
          m5 = map_assign GPIO_STRESS_TESTING (TestSection_new ''GPIO Stress Testing''
                 ''Tests GPIO reliability under high-frequency operations and load conditions''
                 True 120) m4;
          m6 = map_assign GPIO_EDGE_CASES (TestSection_new ''GPIO Edge Cases''
                 ''Tests boundary conditions, error handling, and unusual configurations''
                 True 20) m5;
          m7 = map_assign ALL_SECTIONS (TestSection_new ''All GPIO Tests''
                 ''Runs all GPIO test sections in sequence''
                 True 0) m6
      in populateTestSections elapsed (self\<lparr>test_sections := m7\<rparr>))"

text \<open>
  The default constructor, for a platform whose clock measures \<open>elapsed\<close> and whose world
  is \<open>w\<close>; nothing has been printed yet.
\<close>

definition GpioComprehensiveTest_new :: "('w \<Rightarrow> real) \<Rightarrow> 'w \<Rightarrow> 'w GpioComprehensiveTest" where
  "GpioComprehensiveTest_new elapsed w =
     initializeTestSections elapsed
       \<lparr>test_sections = [], all_results = [], config = TestConfig_new, world = w, console = []\<rparr>"


section \<open>The SPI harness (main/SpiComprehensiveTest.cpp)\<close>

text \<open>
  A test is a \<^verbatim>\<open>bool (*)()\<close>. The twelve test functions drive the bus through the
  Arduino class \<^verbatim>\<open>SPIClass\<close> and the global \<^verbatim>\<open>spiInitialized\<close>, which both belong to the
  world here: a call returns a \<^verbatim>\<open>bool\<close> or throws, and leaves a new world.
  \<^verbatim>\<open>micros()\<close> reads the clock of the world; \<^verbatim>\<open>unsigned long\<close> has 32 bits on the
  boards this sketch is built for.
\<close>

datatype 'w call_spi = Returns_spi bool 'w | Throws_spi 'w

type_synonym 'w test_func = "'w \<Rightarrow> 'w call_spi"

record TestResult_spi =
  passed_spi :: bool
  message_spi :: string
  duration :: "32 word"

text \<open>\<^verbatim>\<open>results\<close> is \<open>None\<close> for \<^verbatim>\<open>nullptr\<close>, else the array that \<^verbatim>\<open>new\<close> returned.\<close>

record SectionResult =
  sectionName :: string
  totalTests :: int
  passedTests :: int
  failedTests :: int
  totalDuration :: "32 word"
  results :: "TestResult_spi list option"

definition TOTAL_SECTIONS :: int where "TOTAL_SECTIONS = 7"

definition SECTION_NAMES :: "string list" where
  "SECTION_NAMES =
     [''Initialization'', ''Basic Operations'', ''Transfer Modes'', ''Clock Speeds'',
      ''Error Handling'', ''Performance'', ''Stress Testing'']"

text \<open>\<^verbatim>\<open>float\<close> arithmetic after a division: a product with a finite factor.\<close>

fun dtimes :: "dbl \<Rightarrow> real \<Rightarrow> dbl" where
  "dtimes (Finite x) y = Finite (x * y)"
| "dtimes PosInf y = (if y = 0 then NaN else if 0 < y then PosInf else NegInf)"
| "dtimes NegInf y = (if y = 0 then NaN else if 0 < y then NegInf else PosInf)"
| "dtimes NaN y = NaN"

datatype event_spi =
    Test_line string string "32 word"
  | Invalid_section
  | Running_section string
  | Section_results string int int int dbl "32 word" dbl
  | Invalid_section_index int int

text \<open>
  The globals: \<^verbatim>\<open>sectionResults\<close> (the array that \<^verbatim>\<open>setup\<close> allocates, one entry for
  each section), the world, and the serial console. The test functions are the field
  \<open>suite\<close>.
\<close>

record 'w suite_spi =
  testSpiBegin :: "'w test_func"
  testSpiEnd :: "'w test_func"
  testSpiTransfer :: "'w test_func"
  testSpiTransfer16 :: "'w test_func"
  testSpiTransfer32 :: "'w test_func"
  testSpiTransferBuffer :: "'w test_func"
  testSpiClockSpeed :: "'w test_func"
  testSpiMode :: "'w test_func"
  testSpiBitOrder :: "'w test_func"
  testSpiErrorHandling :: "'w test_func"
  testSpiPerformance :: "'w test_func"
  testSpiStress :: "'w test_func"

record 'w sketch_spi =
  sectionResults :: "SectionResult list"
  world_spi :: 'w
  serial_spi :: "event_spi list"

definition print_spi :: "event_spi \<Rightarrow> 'w sketch_spi \<Rightarrow> 'w sketch_spi" where
  "print_spi e s = s\<lparr>serial_spi := serial_spi s @ [e]\<rparr>"

text \<open>\<^verbatim>\<open>runTest\<close>: the \<^verbatim>\<open>try\<close> block with its \<^verbatim>\<open>catch (...)\<close>.\<close>

definition runTest ::
  "('w \<Rightarrow> 32 word) \<Rightarrow> 'w test_func \<Rightarrow> string \<Rightarrow> 'w sketch_spi \<Rightarrow> TestResult_spi \<times> 'w sketch_spi"
where
  "runTest micros testFunc testName s =
     (let startTime = micros (world_spi s);
          (p, m, w') =
            (case testFunc (world_spi s) of
               Returns_spi b w' \<Rightarrow> (b, if b then ''PASSED'' else ''FAILED'', w')
             | Throws_spi w' \<Rightarrow> (False, ''ERROR'', w'));
          result = \<lparr>passed_spi = p, message_spi = m, duration = micros w' - startTime\<rparr>
      in (result, print_spi (Test_line testName (message_spi result) (duration result))
                    (s\<lparr>world_spi := w'\<rparr>)))"

text \<open>
  The \<^verbatim>\<open>switch\<close> of \<^verbatim>\<open>runSection\<close>: whether the case first calls \<^verbatim>\<open>testSpiBegin()\<close>
  outside \<^verbatim>\<open>runTest\<close>, and the tests it then hands to \<^verbatim>\<open>runTest\<close>, in order.
\<close>

definition section_tests :: "'w suite_spi \<Rightarrow> int \<Rightarrow> bool \<times> ('w test_func \<times> string) list" where
  "section_tests T section =
     (if section = 0 then
        (False, [(testSpiBegin T, ''SPI Begin''), (testSpiEnd T, ''SPI End'')])
      else if section = 1 then
        (True, [(testSpiTransfer T, ''Single Byte Transfer''), (testSpiTransfer16 T, ''16-bit Transfer''),
                (testSpiTransfer32 T, ''32-bit Transfer''), (testSpiTransferBuffer T, ''Buffer Transfer'')])
      else if section = 2 then
        (True, [(testSpiMode T, ''SPI Mode Testing''), (testSpiBitOrder T, ''Bit Order Testing''),
                (testSpiClockSpeed T, ''Clock Speed Testing'')])
      else if section = 3 then (True, [(testSpiClockSpeed T, ''Clock Speed Variations'')])
      else if section = 4 then (True, [(testSpiErrorHandling T, ''Error Handling'')])
      else if section = 5 then (True, [(testSpiPerformance T, ''Performance Benchmark'')])
      else (True, [(testSpiStress T, ''Stress Testing'')]))"

text \<open>The assignments \<^verbatim>\<open>results[j] = runTest(...)\<close> of one case, from index \<open>j\<close> on.\<close>

fun run_case ::
  "('w \<Rightarrow> 32 word) \<Rightarrow> nat \<Rightarrow> ('w test_func \<times> string) list \<Rightarrow> nat \<Rightarrow> 'w sketch_spi \<Rightarrow> 'w sketch_spi"
where
  "run_case micros section [] j s = s"
| "run_case micros section ((f, n) # rest) j s =
     (let (result, s1) = runTest micros f n s;
          entry = sectionResults s1 ! section;
          entry' = entry\<lparr>results := map_option (\<lambda>a. a[j := result]) (results entry)\<rparr>
      in run_case micros section rest (j + 1) (s1\<lparr>sectionResults := (sectionResults s1)[section := entry']\<rparr>))"

text \<open>The loop that computes the statistics of the section.\<close>

fun tally :: "TestResult_spi list \<Rightarrow> SectionResult \<Rightarrow> SectionResult" where
  "tally [] entry = entry"
| "tally (r # rs) entry =
     tally rs
       ((if passed_spi r then entry\<lparr>passedTests := passedTests entry + 1\<rparr>
         else entry\<lparr>failedTests := failedTests entry + 1\<rparr>)
        \<lparr>totalDuration := totalDuration entry + duration r\<rparr>)"

definition printSectionResults :: "SectionResult \<Rightarrow> 'w sketch_spi \<Rightarrow> 'w sketch_spi" where
  "printSectionResults section s =
     print_spi (Section_results (sectionName section) (totalTests section) (passedTests section)
                  (failedTests section)
                  (dtimes (ddiv (real_of_int (passedTests section)) (real_of_int (totalTests section))) 100)
                  (totalDuration section)
                  (ddiv (real (unat (totalDuration section))) (real_of_int (totalTests section)))) s"

datatype fault_spi = Exception_escapes | Index_out_of_range

text \<open>
  An element of the array that \<^verbatim>\<open>new TestResult[k]\<close> returns. Its \<^verbatim>\<open>bool\<close> and its
  \<^verbatim>\<open>unsigned long\<close> are indeterminate in C++; every element is assigned before it is read.
\<close>

definition fresh_result :: TestResult_spi where
  "fresh_result = \<lparr>passed_spi = False, message_spi = [], duration = 0\<rparr>"

text \<open>
  \<^verbatim>\<open>runSection\<close>. The guard tests the upper bound only; a negative \<^verbatim>\<open>section\<close> would index
  \<^verbatim>\<open>SECTION_NAMES\<close> and \<^verbatim>\<open>sectionResults\<close> before their first element.
\<close>

definition runSection_spi ::
  "('w \<Rightarrow> 32 word) \<Rightarrow> 'w suite_spi \<Rightarrow> int \<Rightarrow> 'w sketch_spi \<Rightarrow> (fault_spi \<times> 'w sketch_spi) + 'w sketch_spi"
where
  "runSection_spi micros T section s =
     (if section \<ge> TOTAL_SECTIONS then Inr (print_spi Invalid_section s)
      else if section < 0 \<or> nat section \<ge> length (sectionResults s) then Inl (Index_out_of_range, s)
      else
        let k = nat section;
            s1 = print_spi (Running_section (SECTION_NAMES ! k)) s;
            (begin_first, cases) = section_tests T section;
            entry = (sectionResults s1 ! k)
                      \<lparr>sectionName := SECTION_NAMES ! k, totalTests := int (length cases),
                       passedTests := 0, failedTests := 0, totalDuration := 0,
                       results := Some (replicate (length cases) fresh_result)\<rparr>;
            s2 = s1\<lparr>sectionResults := (sectionResults s1)[k := entry]\<rparr>
        in case (if begin_first then
                   (case testSpiBegin T (world_spi s2) of
                      Returns_spi b w' \<Rightarrow> Inr (s2\<lparr>world_spi := w'\<rparr>)
                    | Throws_spi w' \<Rightarrow> Inl (Exception_escapes, s2\<lparr>world_spi := w'\<rparr>))
                 else Inr s2) of
             Inl e \<Rightarrow> Inl e
           | Inr s3 \<Rightarrow>
               let s4 = run_case micros k cases 0 s3;
                   done = sectionResults s4 ! k;
                   counted = tally (case results done of Some a \<Rightarrow> take (nat (totalTests done)) a | None \<Rightarrow> []) done;
                   s5 = s4\<lparr>sectionResults := (sectionResults s4)[k := counted]\<rparr>
               in Inr (printSectionResults counted s5))"

definition runSpecificSection ::
  "('w \<Rightarrow> 32 word) \<Rightarrow> 'w suite_spi \<Rightarrow> int \<Rightarrow> 'w sketch_spi \<Rightarrow> (fault_spi \<times> 'w sketch_spi) + 'w sketch_spi"
where
  "runSpecificSection micros T sectionIndex s =
     (if sectionIndex < 0 \<or> sectionIndex \<ge> TOTAL_SECTIONS then
        Inr (print_spi (Invalid_section_index sectionIndex (TOTAL_SECTIONS - 1)) s)
      else runSection_spi micros T sectionIndex s)"

section \<open>The PWM harness (PwmComprehensiveTest.cpp)\<close>


definition GROUP_MAX :: int where "GROUP_MAX = 4"

text \<open>\<^verbatim>\<open>struct TestResult\<close>; a \<^verbatim>\<open>const char*\<close> is \<open>None\<close> when it is \<^verbatim>\<open>nullptr\<close>.\<close>

record TestResult_pwm =
  passed_pwm :: bool
  test_name_pwm :: "string option"
  error_message :: "string option"
  execution_time_ms_pwm :: "32 word"

datatype event_pwm =
    Skipping string
  | Section_banner string
  | Group_banner string
  | Result_line TestResult_pwm
  | Starting
  | Summary int int int "dbl option"


text \<open>The global test state (the arrays have 7, 4 and 100 elements), the world, the console.\<close>

record 'w sketch_pwm =
  test_section_enabled :: "bool list"
  test_group_enabled :: "bool list"
  test_results :: "TestResult_pwm list"
  test_result_count :: int
  world_pwm :: 'w
  serial_pwm :: "event_pwm list"




















definition enable_test_group :: "int \<Rightarrow> bool \<Rightarrow> 'w sketch_pwm \<Rightarrow> 'w sketch_pwm" where
  "enable_test_group grp enable s =
     (if grp \<ge> 0 \<and> grp < GROUP_MAX
      then s\<lparr>test_group_enabled := (test_group_enabled s)[nat grp := enable]\<rparr>
      else s)"



section \<open>Vocabulary of the statements\<close>

text \<open>The state at the end of a method, whether it returned or a fault ended it.\<close>

definition final :: "('e \<times> 's) + 's \<Rightarrow> 's" where
  "final r = (case r of Inl (e, s) \<Rightarrow> s | Inr s \<Rightarrow> s)"


fun world_after :: "'w call \<Rightarrow> 'w" where
  "world_after (Returns r elapsed w') = w'"
| "world_after (Throws w') = w'"

text \<open>The world in which the test of index \<open>i\<close> is called, when the run starts in \<open>w\<close>.\<close>

fun world_before :: "'w test_fn list \<Rightarrow> 'w \<Rightarrow> nat \<Rightarrow> 'w" where
  "world_before ts w 0 = w"
| "world_before [] w (Suc i) = w"
| "world_before (t # ts) w (Suc i) = world_before ts (world_after (t w)) i"

text \<open>Every call of a run of \<open>ts\<close> that starts in \<open>w\<close> returns.\<close>

fun all_return :: "'w test_fn list \<Rightarrow> 'w \<Rightarrow> bool" where
  "all_return [] w = True"
| "all_return (t # ts) w =
     (case t w of Returns r elapsed w' \<Rightarrow> all_return ts w' | Throws w' \<Rightarrow> False)"

text \<open>The results a run of \<open>ts\<close> records, up to the first call that throws.\<close>

fun outcomes :: "'w test_fn list \<Rightarrow> 'w \<Rightarrow> TestResult list" where
  "outcomes [] w = []"
| "outcomes (t # ts) w =
     (case t w of
        Returns r elapsed w' \<Rightarrow> r\<lparr>execution_time_ms := elapsed\<rparr> # outcomes ts w'
      | Throws w' \<Rightarrow> [])"

text \<open>
  The sections whose tests a console shows to have been started, and the keys of all the
  calls of \<^verbatim>\<open>runSection\<close> that it shows.
\<close>

fun executed :: "event list \<Rightarrow> GpioTestSection list" where
  "executed [] = []"
| "executed (Section_header section n d # es) = section # executed es"
| "executed (e # es) = executed es"

fun visited :: "event list \<Rightarrow> GpioTestSection list" where
  "visited [] = []"
| "visited (Section_header section n d # es) = section # visited es"
| "visited (Section_disabled section n # es) = section # visited es"
| "visited (Error_section_not_found section # es) = section # visited es"
| "visited (e # es) = visited es"



text \<open>The sections that the two listing methods have printed.\<close>

fun listed :: "event list \<Rightarrow> GpioTestSection list" where
  "listed [] = []"
| "listed (Listed section en n d k # es) = section # listed es"
| "listed (Listed_enabled section n d k t # es) = section # listed es"
| "listed (e # es) = listed es"

text \<open>Whether a method returned, and whether the registry holds a key; the tests of a key.\<close>

definition completes :: "'e + 'a \<Rightarrow> bool" where
  "completes r = (case r of Inl e \<Rightarrow> False | Inr s \<Rightarrow> True)"

definition registered :: "GpioTestSection \<Rightarrow> 'w GpioComprehensiveTest \<Rightarrow> bool" where
  "registered section self = (map_of (test_sections self) section \<noteq> None)"

definition cases_of :: "GpioTestSection \<Rightarrow> 'w GpioComprehensiveTest \<Rightarrow> 'w test_fn list" where
  "cases_of section self =
     (case map_of (test_sections self) section of Some s \<Rightarrow> tests s | None \<Rightarrow> [])"

text \<open>Whether two states of the harness hold the same registry and show the same sections.\<close>

definition same_registry :: "'w GpioComprehensiveTest \<Rightarrow> 'w GpioComprehensiveTest \<Rightarrow> bool" where
  "same_registry self s \<longleftrightarrow>
     test_sections s = test_sections self \<and> config s = config self
     \<and> executed (console s) = executed (console self)
     \<and> visited (console s) = visited (console self)"

subsection \<open>Concrete harnesses\<close>

text \<open>
  The placeholders of the source all pass. A harness whose test bodies have been written
  is the constructed one with the tests of a section replaced; the world of these
  examples counts the calls made so far.
\<close>

definition with_tests ::
  "GpioTestSection \<Rightarrow> 'w test_fn list \<Rightarrow> 'w GpioComprehensiveTest \<Rightarrow> 'w GpioComprehensiveTest"
where
  "with_tests section ts self =
     self\<lparr>test_sections := map_modify section (\<lambda>s. s\<lparr>tests := ts\<rparr>) (test_sections self)\<rparr>"

definition passing :: "string \<Rightarrow> nat test_fn" where
  "passing n w =
     Returns \<lparr>test_name = n, passed = True, message = [], execution_time_ms = 0\<rparr> 3 (Suc w)"

definition failing :: "string \<Rightarrow> nat test_fn" where
  "failing n w =
     Returns \<lparr>test_name = n, passed = False, message = ''boom'', execution_time_ms = 0\<rparr> 4 (Suc w)"


definition fresh :: "nat GpioComprehensiveTest" where
  "fresh = GpioComprehensiveTest_new (\<lambda>w. 1) 0"

definition bench :: "nat GpioComprehensiveTest" where
  "bench = with_tests GPIO_INTERRUPTS [passing ''rising'', failing ''falling'', passing ''both''] fresh"




text \<open>
  The SPI sketch as \<^verbatim>\<open>setup\<close> leaves it (seven entries whose \<^verbatim>\<open>results\<close> are
  \<^verbatim>\<open>nullptr\<close>), a suite in which \<^verbatim>\<open>testSpiEnd\<close> throws, and a clock that advances by ten
  microseconds with each call.
\<close>

definition sketch_spi_new :: "'w \<Rightarrow> 'w sketch_spi" where
  "sketch_spi_new w =
     \<lparr>sectionResults = replicate 7
        \<lparr>sectionName = [], totalTests = 0, passedTests = 0, failedTests = 0, totalDuration = 0,
         results = None\<rparr>,
      world_spi = w, serial_spi = []\<rparr>"

definition returning :: "bool \<Rightarrow> nat test_func" where
  "returning b w = Returns_spi b (Suc w)"

definition suite_throwing_end :: "nat suite_spi" where
  "suite_throwing_end =
     \<lparr>testSpiBegin = returning True, testSpiEnd = (\<lambda>w. Throws_spi (Suc w)),
      testSpiTransfer = returning True, testSpiTransfer16 = returning True,
      testSpiTransfer32 = returning True, testSpiTransferBuffer = returning True,
      testSpiClockSpeed = returning True, testSpiMode = returning True,
      testSpiBitOrder = returning True, testSpiErrorHandling = returning True,
      testSpiPerformance = returning True, testSpiStress = returning True\<rparr>"

definition ticking :: "nat \<Rightarrow> 32 word" where
  "ticking w = 10 * of_nat w"

text \<open>The bench after a run of its interrupt section, with that section then disabled.\<close>

definition paused :: "nat GpioComprehensiveTest" where
  "paused = enableSection GPIO_INTERRUPTS False (final (runSection GPIO_INTERRUPTS bench))"

section \<open>Lemmas\<close>

lemmas section_defs =
  BASIC_GPIO_OPERATIONS_def GPIO_INTERRUPTS_def GPIO_PWM_FUNCTIONALITY_def
  GPIO_ANALOG_READS_def GPIO_STRESS_TESTING_def GPIO_EDGE_CASES_def ALL_SECTIONS_def

lemmas construction_defs =
  GpioComprehensiveTest_new_def initializeTestSections_def populateTestSections_def
  TestSection_new_def TestConfig_new_def map_modify_def with_tests_def Let_def

lemma executed_append: "executed (xs @ ys) = executed xs @ executed ys"
  by (induction xs rule: executed.induct) simp_all

lemma visited_append: "visited (xs @ ys) = visited xs @ visited ys"
  by (induction xs rule: visited.induct) simp_all

lemma listed_append: "listed (xs @ ys) = listed xs @ listed ys"
  by (induction xs rule: listed.induct) simp_all



text \<open>The loop of runSection, whatever the tests do.\<close>

lemma run_tests_general:
  "(case run_tests ts i n (sr, p0, f0) self of
      Inl (e, s) \<Rightarrow>
        \<not> all_return ts (world self)
        \<and> all_results s = all_results self @ outcomes ts (world self)
        \<and> same_registry self s
    | Inr ((sr', p, f), s) \<Rightarrow>
        all_return ts (world self)
        \<and> all_results s = all_results self @ outcomes ts (world self)
        \<and> sr' = sr @ outcomes ts (world self)
        \<and> p = p0 + int (length (filter passed (outcomes ts (world self))))
        \<and> f = f0 + int (length (filter (\<lambda>r. \<not> passed r) (outcomes ts (world self))))
        \<and> world s = world_before ts (world self) (length ts)
        \<and> same_registry self s)"
proof (induction ts arbitrary: i sr p0 f0 self)
  case Nil
  then show ?case by (simp add: same_registry_def)
next
  case (Cons t ts)
  show ?case
  proof (cases "t (world self)")
    case (Throws w')
    then show ?thesis
      by (simp add: Let_def print_def same_registry_def executed_append visited_append)
  next
    case (Returns r d w')
    define res where "res = r\<lparr>execution_time_ms := d\<rparr>"
    define s4 where "s4 =
      (let s2 = print (Test_verdict (passed res) (execution_time_ms res))
                  ((print (Test_progress (i + 1) n) self)\<lparr>world := w'\<rparr>);
           s3 = (if message res \<noteq> [] then print (Test_message (message res)) s2 else s2)
       in s3\<lparr>all_results := all_results s3 @ [res]\<rparr>)"
    have s4: "same_registry self s4" "world s4 = w'" "all_results s4 = all_results self @ [res]"
      by (simp_all add: s4_def Let_def print_def same_registry_def executed_append visited_append)
    define p1 where "p1 = (if passed res then p0 + 1 else p0)"
    define f1 where "f1 = (if passed res then f0 else f0 + 1)"
    have step: "run_tests (t # ts) i n (sr, p0, f0) self =
        run_tests ts (i + 1) n (sr @ [res], p1, f1) s4"
      using Returns by (simp add: Let_def s4_def res_def print_def p1_def f1_def)
    have out: "outcomes (t # ts) (world self) = res # outcomes ts w'"
      and ret: "all_return (t # ts) (world self) = all_return ts w'"
      and wb: "world_before (t # ts) (world self) (length (t # ts)) = world_before ts w' (length ts)"
      using Returns by (simp_all add: res_def)
    have counts:
      "p1 + int (length (filter passed (outcomes ts w'))) =
         p0 + int (length (filter passed (res # outcomes ts w')))"
      "f1 + int (length (filter (\<lambda>r. \<not> passed r) (outcomes ts w'))) =
         f0 + int (length (filter (\<lambda>r. \<not> passed r) (res # outcomes ts w')))"
      by (simp_all add: p1_def f1_def)
    show ?thesis
      unfolding step out ret wb
      using Cons.IH[where i = "i + 1" and self = s4 and sr = "sr @ [res]"
          and ?p0.0 = p1 and ?f0.0 = f1] s4 counts
      by (auto simp: same_registry_def split: sum.splits)
  qed
qed


lemma runSection_not_enabled:
  "\<not> isSectionEnabled sec self \<Longrightarrow>
   \<exists>e. runSection sec self = Inr (print e self) \<and> executed [e] = []"
  by (auto simp: runSection_def isSectionEnabled_def split: option.splits)

lemma runSection_enabled:
  assumes "isSectionEnabled sec self"
  shows "all_results (final (runSection sec self)) =
           all_results self @ outcomes (cases_of sec self) (world self)"
    and "completes (runSection sec self) \<longleftrightarrow> all_return (cases_of sec self) (world self)"
    and "completes (runSection sec self) \<Longrightarrow>
           world (final (runSection sec self)) =
             world_before (cases_of sec self) (world self) (length (cases_of sec self))"
proof -
  from assms obtain G where G: "map_of (test_sections self) sec = Some G" "enabled G"
    by (auto simp: isSectionEnabled_def split: option.splits)
  let ?s1 = "print (Section_header sec (name G) (description G)) self"
  have w: "world ?s1 = world self" "all_results ?s1 = all_results self"
    by (simp_all add: print_def)
  note loop = run_tests_general[where ts = "tests G" and i = 0 and n = "length (tests G)"
      and sr = "[]" and ?p0.0 = 0 and ?f0.0 = 0 and self = ?s1, unfolded w]
  show "all_results (final (runSection sec self)) =
           all_results self @ outcomes (cases_of sec self) (world self)"
    using G loop
    by (auto simp: runSection_def final_def cases_of_def Let_def print_def split: sum.splits)
  show "completes (runSection sec self) \<longleftrightarrow> all_return (cases_of sec self) (world self)"
    using G loop
    by (auto simp: runSection_def completes_def cases_of_def Let_def split: sum.splits)
  show "completes (runSection sec self) \<Longrightarrow>
           world (final (runSection sec self)) =
             world_before (cases_of sec self) (world self) (length (cases_of sec self))"
    using G loop
    by (auto simp: runSection_def completes_def final_def cases_of_def Let_def print_def
             split: sum.splits)
qed

lemma runSection_frame:
  "test_sections (final (runSection sec self)) = test_sections self
   \<and> config (final (runSection sec self)) = config self
   \<and> visited (console (final (runSection sec self))) =
       visited (console self) @ [sec]
   \<and> executed (console (final (runSection sec self))) =
       executed (console self) @ (if isSectionEnabled sec self then [sec] else [])"
proof (cases "map_of (test_sections self) sec")
  case None
  then show ?thesis
    by (simp add: runSection_def final_def print_def visited_append executed_append
        registered_def isSectionEnabled_def)
next
  case (Some G)
  let ?s1 = "print (Section_header sec (name G) (description G)) self"
  note loop = run_tests_general[where ts = "tests G" and i = 0 and n = "length (tests G)"
      and sr = "[]" and ?p0.0 = 0 and ?f0.0 = 0 and self = ?s1]
  have s1: "visited (console ?s1) = visited (console self) @ [sec]"
    "executed (console ?s1) = executed (console self) @ [sec]"
    "test_sections ?s1 = test_sections self" "config ?s1 = config self"
    by (simp_all add: print_def visited_append executed_append)
  show ?thesis
    using Some loop s1
    by (auto simp: runSection_def final_def Let_def print_def same_registry_def visited_append
        executed_append registered_def isSectionEnabled_def split: sum.splits)
qed

lemma runSection_registry [simp]:
  "test_sections (final (runSection sec self)) = test_sections self"
  using runSection_frame[of sec self] by simp

lemma runSection_visited:
  "visited (console (final (runSection sec self))) =
     visited (console self) @ [sec]"
  using runSection_frame[of sec self] by simp

lemma runSection_executed:
  "executed (console (final (runSection sec self))) =
     executed (console self) @ (if isSectionEnabled sec self then [sec] else [])"
  using runSection_frame[of sec self] by simp

lemma final_Inr [simp]: "final (Inr s) = s"
  by (simp add: final_def)

lemma completes_Inr [simp]: "completes (Inr s)" "\<not> completes (Inl e)"
  by (simp_all add: completes_def)

lemma completes_final: "completes r \<Longrightarrow> r = Inr (final r)"
  by (cases r) (simp_all add: completes_def final_def)

lemma registered_final [simp]:
  "registered k (final (runSection sec self)) = registered k self"
  by (simp add: registered_def)

lemma isSectionEnabled_final [simp]:
  "isSectionEnabled k (final (runSection sec self)) = isSectionEnabled k self"
  by (simp add: isSectionEnabled_def)

lemma cases_of_final [simp]:
  "cases_of k (final (runSection sec self)) = cases_of k self"
  by (simp add: cases_of_def)









text \<open>The counts that the accessors derive from the result list always add up.\<close>

lemma fold_count_passed:
  "fold (\<lambda>result p. if passed result then p + 1 else p) rs (k::int) =
     k + int (length (filter passed rs))"
  by (induction rs arbitrary: k) simp_all

lemma fold_count_failed:
  "fold (\<lambda>result f. if \<not> passed result then f + 1 else f) rs (k::int) =
     k + int (length (filter (\<lambda>r. \<not> passed r) rs))"
  by (induction rs arbitrary: k) simp_all

lemma counts_add_up:
  "getPassedTestCount self + getFailedTestCount self = getTotalTestCount self"
  using sum_length_filter_compl[of passed "all_results self"]
  by (simp add: getPassedTestCount_def getFailedTestCount_def getTotalTestCount_def
      fold_count_passed fold_count_failed)




section \<open>The claims\<close>

text \<open>
  C4. For a registered section whose \<^verbatim>\<open>enabled\<close> flag is false, \<^verbatim>\<open>runSection\<close> returns,
  produces no outcome, and leaves the accumulated results (and with them the total, passed
  and failed counts and the total time), the world and the registry as they were; no test
  is started.
\<close>

theorem runSection_disabled_changes_nothing:
  assumes "registered sec self" and "\<not> isSectionEnabled sec self"
  shows "completes (runSection sec self)
    \<and> drop (length (all_results self)) (all_results (final (runSection sec self))) = []
    \<and> all_results (final (runSection sec self)) = all_results self
    \<and> getTotalTestCount (final (runSection sec self)) = getTotalTestCount self
    \<and> getPassedTestCount (final (runSection sec self)) = getPassedTestCount self
    \<and> getFailedTestCount (final (runSection sec self)) = getFailedTestCount self
    \<and> getTotalExecutionTime (final (runSection sec self)) = getTotalExecutionTime self
    \<and> world (final (runSection sec self)) = world self
    \<and> test_sections (final (runSection sec self)) = test_sections self
    \<and> executed (console (final (runSection sec self))) = executed (console self)"
proof -
  from assms obtain G where "map_of (test_sections self) sec = Some G" "\<not> enabled G"
    by (auto simp: registered_def isSectionEnabled_def)
  then have "runSection sec self = Inr (print (Section_disabled sec (name G)) self)"
    by (simp add: runSection_def)
  then show ?thesis
    by (simp add: print_def getTotalTestCount_def getPassedTestCount_def getFailedTestCount_def
        getTotalExecutionTime_def executed_append)
qed

lemma paused_facts:
  "registered GPIO_INTERRUPTS paused" "\<not> isSectionEnabled GPIO_INTERRUPTS paused"
  by (simp_all add: paused_def enableSection_def registered_def isSectionEnabled_def bench_def fresh_def
      construction_defs section_defs)

lemma paused_results: "map test_name (all_results paused) = [''rising'', ''falling'', ''both'']"
  by (simp add: paused_def enableSection_def runSection_def bench_def fresh_def
      construction_defs section_defs passing_def failing_def print_def)

theorem runSection_disabled_changes_nothing_witness:
  "registered GPIO_INTERRUPTS paused \<and> \<not> isSectionEnabled GPIO_INTERRUPTS paused
   \<and> map test_name (all_results paused) = [''rising'', ''falling'', ''both'']
   \<and> completes (runSection GPIO_INTERRUPTS paused)
   \<and> all_results (final (runSection GPIO_INTERRUPTS paused)) = all_results paused
   \<and> getTotalTestCount (final (runSection GPIO_INTERRUPTS paused)) = 3"
proof -
  have "length (map test_name (all_results paused)) = 3"
    by (simp only: paused_results) simp
  then have "getTotalTestCount paused = 3"
    by (simp add: getTotalTestCount_def)
  then show ?thesis
    using runSection_disabled_changes_nothing[OF paused_facts] paused_facts paused_results
    by simp
qed

text \<open>
  C8. In every state of the runner, \<^verbatim>\<open>clearResults\<close> empties the outcome sequence, so
  that the total, passed and failed counts and the total time are 0 afterwards, and it
  leaves the registry as it was: every section keeps its \<^verbatim>\<open>enabled\<close> flag and its
  \<^verbatim>\<open>timeout_seconds\<close>.
\<close>

theorem clearResults_resets_results_only:
  "all_results (clearResults self) = []
   \<and> getTotalTestCount (clearResults self) = 0
   \<and> getPassedTestCount (clearResults self) = 0
   \<and> getFailedTestCount (clearResults self) = 0
   \<and> getTotalExecutionTime (clearResults self) = 0
   \<and> test_sections (clearResults self) = test_sections self
   \<and> isSectionEnabled sec (clearResults self) = isSectionEnabled sec self
   \<and> map (\<lambda>(k, s). (k, enabled s, timeout_seconds s)) (test_sections (clearResults self)) =
       map (\<lambda>(k, s). (k, enabled s, timeout_seconds s)) (test_sections self)"
  by (simp add: clearResults_def getTotalTestCount_def getPassedTestCount_def
      getFailedTestCount_def getTotalExecutionTime_def isSectionEnabled_def)

theorem clearResults_resets_results_only_witness:
  "getTotalTestCount paused = 3 \<and> getFailedTestCount paused = 1
   \<and> getTotalTestCount (clearResults paused) = 0
   \<and> getFailedTestCount (clearResults paused) = 0
   \<and> all_results (clearResults paused) = []
   \<and> \<not> isSectionEnabled GPIO_INTERRUPTS (clearResults paused)
   \<and> isSectionEnabled GPIO_EDGE_CASES (clearResults paused)"
proof -
  have "all_results paused =
      [\<lparr>test_name = ''rising'', passed = True, message = [], execution_time_ms = 3\<rparr>,
       \<lparr>test_name = ''falling'', passed = False, message = ''boom'', execution_time_ms = 4\<rparr>,
       \<lparr>test_name = ''both'', passed = True, message = [], execution_time_ms = 3\<rparr>]"
    by (simp add: paused_def enableSection_def runSection_def bench_def fresh_def
      construction_defs section_defs passing_def failing_def print_def)
  then have "getTotalTestCount paused = 3" "getFailedTestCount paused = 1"
    by (simp_all add: getTotalTestCount_def getFailedTestCount_def)
  moreover have "\<not> isSectionEnabled GPIO_INTERRUPTS paused" "isSectionEnabled GPIO_EDGE_CASES paused"
    by (simp_all add: paused_def enableSection_def isSectionEnabled_def bench_def fresh_def
      construction_defs section_defs)
  ultimately show ?thesis
    using clearResults_resets_results_only[of paused GPIO_INTERRUPTS]
      clearResults_resets_results_only[of paused GPIO_EDGE_CASES]
    by simp
qed

text \<open>
  C10. For a key that the registry does not hold, \<^verbatim>\<open>isSectionEnabled\<close> answers false and
  \<^verbatim>\<open>getSectionTestCount\<close> answers 0, and \<^verbatim>\<open>enableSection\<close> and \<^verbatim>\<open>setSectionTimeout\<close>
  return the harness as it was, registry and all.
\<close>

theorem unknown_section_defaults_and_no_ops:
  assumes "\<not> registered sec self"
  shows "\<not> isSectionEnabled sec self
    \<and> getSectionTestCount sec self = 0
    \<and> enableSection sec enable self = self
    \<and> setSectionTimeout sec timeout self = self"
  using assms
  by (simp add: registered_def isSectionEnabled_def getSectionTestCount_def enableSection_def
      setSectionTimeout_def)

theorem unknown_section_defaults_and_no_ops_witness:
  "\<not> registered 42 fresh
   \<and> \<not> isSectionEnabled 42 fresh
   \<and> getSectionTestCount 42 fresh = 0
   \<and> enableSection 42 True fresh = fresh
   \<and> setSectionTimeout 42 5 fresh = fresh
   \<and> registered GPIO_EDGE_CASES fresh \<and> getSectionTestCount GPIO_EDGE_CASES fresh = 4"
proof -
  have "\<not> registered 42 fresh"
    by (simp add: registered_def fresh_def construction_defs section_defs)
  moreover have "registered GPIO_EDGE_CASES fresh" "getSectionTestCount GPIO_EDGE_CASES fresh = 4"
    by (simp_all add: registered_def getSectionTestCount_def fresh_def construction_defs section_defs)
  ultimately show ?thesis
    using unknown_section_defaults_and_no_ops[of 42 fresh True 5] by simp
qed

text \<open>
  C5. For a key that the registry does not hold, \<^verbatim>\<open>runSection\<close> prints its error line and
  returns: it produces no outcome, the accumulated results and their counts, the world and
  the registry are as before, and no exception leaves the method. The SPI sketch does the
  same for an index outside 0..6: \<^verbatim>\<open>runSpecificSection\<close> prints and returns, with the
  section results and the world untouched.
\<close>

theorem unknown_section_is_reported_not_run:
  "(\<not> registered sec self \<longrightarrow>
      runSection sec self = Inr (print (Error_section_not_found sec) self)
      \<and> completes (runSection sec self)
      \<and> drop (length (all_results self)) (all_results (final (runSection sec self))) = []
      \<and> all_results (final (runSection sec self)) = all_results self
      \<and> getTotalTestCount (final (runSection sec self)) = getTotalTestCount self
      \<and> getPassedTestCount (final (runSection sec self)) = getPassedTestCount self
      \<and> getFailedTestCount (final (runSection sec self)) = getFailedTestCount self
      \<and> getTotalExecutionTime (final (runSection sec self)) = getTotalExecutionTime self
      \<and> world (final (runSection sec self)) = world self
      \<and> test_sections (final (runSection sec self)) = test_sections self)
   \<and> (sectionIndex < 0 \<or> sectionIndex \<ge> TOTAL_SECTIONS \<longrightarrow>
      runSpecificSection micros T sectionIndex s =
        Inr (print_spi (Invalid_section_index sectionIndex 6) s)
      \<and> completes (runSpecificSection micros T sectionIndex s)
      \<and> sectionResults (final (runSpecificSection micros T sectionIndex s)) = sectionResults s
      \<and> world_spi (final (runSpecificSection micros T sectionIndex s)) = world_spi s)"
  by (auto simp: registered_def runSection_def print_def getTotalTestCount_def
      getPassedTestCount_def getFailedTestCount_def getTotalExecutionTime_def
      runSpecificSection_def TOTAL_SECTIONS_def print_spi_def)

theorem unknown_section_is_reported_not_run_witness:
  "\<not> registered 42 paused
   \<and> completes (runSection 42 paused)
   \<and> all_results (final (runSection 42 paused)) = all_results paused
   \<and> getTotalTestCount (final (runSection 42 paused)) = getTotalTestCount paused
   \<and> (7::int) \<ge> TOTAL_SECTIONS
   \<and> completes (runSpecificSection ticking suite_throwing_end 7 (sketch_spi_new 0))
   \<and> sectionResults (final (runSpecificSection ticking suite_throwing_end 7 (sketch_spi_new 0)))
       = sectionResults (sketch_spi_new (0::nat))"
proof -
  have "\<not> registered 42 paused"
    by (simp add: registered_def paused_def enableSection_def bench_def fresh_def
        construction_defs section_defs)
  moreover have "(7::int) \<ge> TOTAL_SECTIONS"
    by (simp add: TOTAL_SECTIONS_def)
  ultimately show ?thesis
    using unknown_section_is_reported_not_run[of 42 paused 7 ticking suite_throwing_end "sketch_spi_new 0"]
    by (simp add: print_def print_spi_def getTotalTestCount_def)
qed








lemma final_Inl [simp]: "final (Inl (e, s)) = s"
  by (simp add: final_def)

lemma selected_run:
  assumes "\<forall>sec \<in> set secs. isSectionEnabled sec self \<longrightarrow> (\<forall>w. all_return (cases_of sec self) w)"
  shows "completes (runSelectedSections secs self)
    \<and> executed (console (final (runSelectedSections secs self))) =
        executed (console self) @ filter (\<lambda>sec. isSectionEnabled sec self) secs
    \<and> visited (console (final (runSelectedSections secs self))) =
        visited (console self) @ secs
    \<and> test_sections (final (runSelectedSections secs self)) = test_sections self"
  using assms
proof (induction secs arbitrary: self)
  case Nil
  then show ?case by simp
next
  case (Cons sec secs)
  have "completes (runSection sec self)"
  proof (cases "isSectionEnabled sec self")
    case True
    with Cons.prems runSection_enabled(2)[OF True] show ?thesis by simp
  next
    case False
    from runSection_not_enabled[OF this] show ?thesis by auto
  qed
  then obtain s1 where r: "runSection sec self = Inr s1"
    by (cases "runSection sec self") (simp_all add: completes_def)
  have keep: "isSectionEnabled k s1 = isSectionEnabled k self" "cases_of k s1 = cases_of k self"
    "registered k s1 = registered k self" "test_sections s1 = test_sections self" for k
    using isSectionEnabled_final[of k sec self] cases_of_final[of k sec self]
      registered_final[of k sec self] runSection_registry[of sec self]
    by (simp_all add: r)
  have ex: "executed (console s1) =
      executed (console self) @ (if isSectionEnabled sec self then [sec] else [])"
    "visited (console s1) =
      visited (console self) @ [sec]"
    using runSection_executed[of sec self] runSection_visited[of sec self] by (simp_all add: r)
  have "\<forall>k \<in> set secs. isSectionEnabled k s1 \<longrightarrow> (\<forall>w. all_return (cases_of k s1) w)"
    using Cons.prems by (simp add: keep)
  from Cons.IH[OF this] show ?case
    by (simp add: r ex keep)
qed

lemma run_all_loop_selected:
  "run_all_loop m self = runSelectedSections (filter (\<lambda>k. k \<noteq> ALL_SECTIONS) (map fst m)) self"
  by (induction m arbitrary: self) (auto split: sum.splits)

text \<open>A run of all sections whose tests return: it returns, and visits every real section.\<close>

lemma runAllSections_returns:
  assumes "\<forall>sec \<in> set (map fst (test_sections self)).
             isSectionEnabled sec self \<longrightarrow> (\<forall>w. all_return (cases_of sec self) w)"
  shows "completes (runAllSections self)
    \<and> visited (console (final (runAllSections self))) =
        visited (console self) @ filter (\<lambda>k. k \<noteq> ALL_SECTIONS) (map fst (test_sections self))"
proof -
  let ?s1 = "print Run_all_banner self"
  let ?ks = "filter (\<lambda>k. k \<noteq> ALL_SECTIONS) (map fst (test_sections self))"
  have same: "isSectionEnabled k ?s1 = isSectionEnabled k self" "cases_of k ?s1 = cases_of k self"
    "registered k ?s1 = registered k self" "test_sections ?s1 = test_sections self" for k
    by (simp_all add: print_def isSectionEnabled_def cases_of_def registered_def)
  have "\<forall>sec \<in> set ?ks. isSectionEnabled sec ?s1 \<longrightarrow> (\<forall>w. all_return (cases_of sec ?s1) w)"
    using assms by (auto simp: same)
  from selected_run[OF this]
  have c: "completes (runSelectedSections ?ks ?s1)"
    and v: "visited (console (final (runSelectedSections ?ks ?s1))) = visited (console ?s1) @ ?ks"
    by simp_all
  from v have v': "visited (console (final (runSelectedSections ?ks ?s1))) = visited (console self) @ ?ks"
    by (simp add: print_def visited_append)
  from c obtain s2 where s2: "runSelectedSections ?ks ?s1 = Inr s2"
    by (cases "runSelectedSections ?ks ?s1") (simp_all add: completes_def)
  have "runAllSections self = Inr (printOverallSummary s2)"
    using s2 by (simp add: runAllSections_def Let_def run_all_loop_selected same)
  then show ?thesis
    using v' s2 by (simp add: printOverallSummary_def Let_def print_def visited_append)
qed


lemma run_all_loop_visited:
  "\<exists>xs. visited (console (final (run_all_loop m self))) = visited (console self) @ xs
        \<and> ALL_SECTIONS \<notin> set xs"
proof (induction m arbitrary: self)
  case Nil
  then show ?case by simp
next
  case (Cons entry m)
  obtain sec G where entry: "entry = (sec, G)" by (cases entry)
  show ?case
  proof (cases "sec = ALL_SECTIONS")
    case True
    with Cons.IH[of self] show ?thesis by (simp add: entry)
  next
    case False
    let ?s1 = "final (runSection sec self)"
    have v1: "visited (console ?s1) = visited (console self) @ [sec]"
      by (rule runSection_visited)
    show ?thesis
    proof (cases "runSection sec self")
      case (Inl e)
      then have "final (run_all_loop (entry # m) self) = ?s1"
        using False by (simp add: entry final_def)
      with v1 False show ?thesis by auto
    next
      case (Inr s1)
      then have "run_all_loop (entry # m) self = run_all_loop m ?s1"
        using False by (simp add: entry)
      moreover from Cons.IH[of ?s1] obtain xs where
        "visited (console (final (run_all_loop m ?s1))) = visited (console ?s1) @ xs"
        "ALL_SECTIONS \<notin> set xs" by blast
      ultimately show ?thesis using v1 False by auto
    qed
  qed
qed

lemma runAllSections_visited:
  "\<exists>xs. visited (console (final (runAllSections self))) = visited (console self) @ xs
        \<and> ALL_SECTIONS \<notin> set xs"
proof -
  let ?s1 = "print Run_all_banner self"
  from run_all_loop_visited[of "test_sections ?s1" ?s1] obtain xs where
    xs: "visited (console (final (run_all_loop (test_sections ?s1) ?s1))) = visited (console ?s1) @ xs"
    "ALL_SECTIONS \<notin> set xs" by blast
  have "visited (console (final (runAllSections self))) =
      visited (console (final (run_all_loop (test_sections ?s1) ?s1)))"
    by (cases "run_all_loop (test_sections ?s1) ?s1")
       (auto simp: runAllSections_def Let_def printOverallSummary_def print_def visited_append final_def)
  with xs show ?thesis
    by (auto simp: print_def visited_append)
qed

lemma sweep_keeps_key:
  "map_of (map (\<lambda>(k, v). if k \<noteq> a then (k, f v) else (k, v)) m) a = map_of m a"
  by (induction m) auto

lemma listSections_loop:
  "\<exists>ys. listed (console (fold (\<lambda>(k, v) s.
             if k \<noteq> ALL_SECTIONS
             then print (Listed k (enabled v) (name v) (description v) (length (tests v))) s
             else s) m self))
           = listed (console self) @ ys
        \<and> ALL_SECTIONS \<notin> set ys"
proof (induction m arbitrary: self)
  case Nil
  then show ?case by simp
next
  case (Cons entry m)
  obtain k v where entry: "entry = (k, v)" by (cases entry)
  show ?case
  proof (cases "k \<noteq> ALL_SECTIONS")
    case True
    let ?s1 = "print (Listed k (enabled v) (name v) (description v) (length (tests v))) self"
    from Cons.IH[of ?s1] obtain ys where
      "listed (console (fold (\<lambda>(k, v) s.
             if k \<noteq> ALL_SECTIONS
             then print (Listed k (enabled v) (name v) (description v) (length (tests v))) s
             else s) m ?s1)) = listed (console ?s1) @ ys"
      "ALL_SECTIONS \<notin> set ys"
      by blast
    moreover have "listed (console ?s1) = listed (console self) @ [k]"
      by (simp add: print_def listed_append)
    ultimately show ?thesis
      using True by (intro exI[of _ "k # ys"]) (simp add: entry)
  next
    case False
    with Cons.IH[of self] show ?thesis
      by (simp add: entry)
  qed
qed

lemma listEnabledSections_loop:
  "\<exists>ys. listed (console (fold (\<lambda>(k, v) s.
             if k \<noteq> ALL_SECTIONS \<and> enabled v
             then print (Listed_enabled k (name v) (description v) (length (tests v))
                           (timeout_seconds v)) s
             else s) m self))
           = listed (console self) @ ys
        \<and> ALL_SECTIONS \<notin> set ys"
proof (induction m arbitrary: self)
  case Nil
  then show ?case by simp
next
  case (Cons entry m)
  obtain k v where entry: "entry = (k, v)" by (cases entry)
  show ?case
  proof (cases "k \<noteq> ALL_SECTIONS \<and> enabled v")
    case True
    let ?s1 = "print (Listed_enabled k (name v) (description v) (length (tests v))
                           (timeout_seconds v)) self"
    from Cons.IH[of ?s1] obtain ys where
      "listed (console (fold (\<lambda>(k, v) s.
             if k \<noteq> ALL_SECTIONS \<and> enabled v
             then print (Listed_enabled k (name v) (description v) (length (tests v))
                           (timeout_seconds v)) s
             else s) m ?s1)) = listed (console ?s1) @ ys"
      "ALL_SECTIONS \<notin> set ys"
      by blast
    moreover have "listed (console ?s1) = listed (console self) @ [k]"
      by (simp add: print_def listed_append)
    ultimately show ?thesis
      using True by (intro exI[of _ "k # ys"]) (simp add: entry)
  next
    case False
    with Cons.IH[of self] show ?thesis
      by (auto simp: entry)
  qed
qed


lemma fresh_registry:
  "map (\<lambda>(k, s). (k, enabled s, length (tests s))) (test_sections fresh) =
     [(0, True, 5), (1, True, 5), (2, True, 4), (3, True, 4), (4, True, 4), (5, True, 4), (6, True, 0)]"
  by (simp add: fresh_def construction_defs section_defs)





text \<open>
  C9. In every state of the harness, the key \<^verbatim>\<open>ALL_SECTIONS\<close> is skipped by each loop over
  the registry: \<^verbatim>\<open>runAllSections\<close> never hands it to \<^verbatim>\<open>runSection\<close> (whether the run
  returns or an exception ends it), \<^verbatim>\<open>enableAllSections\<close> and \<^verbatim>\<open>disableAllSections\<close> leave
  its entry as it was, \<^verbatim>\<open>getEnabledSections\<close> never returns it, and the two listing
  methods never print it.
\<close>

theorem all_sections_key_is_never_iterated:
  "(\<exists>xs. visited (console (final (runAllSections self))) = visited (console self) @ xs
          \<and> ALL_SECTIONS \<notin> set xs)
   \<and> map_of (test_sections (enableAllSections self)) ALL_SECTIONS =
       map_of (test_sections self) ALL_SECTIONS
   \<and> map_of (test_sections (disableAllSections self)) ALL_SECTIONS =
       map_of (test_sections self) ALL_SECTIONS
   \<and> ALL_SECTIONS \<notin> set (getEnabledSections self)
   \<and> (\<exists>ys. listed (console (listSections self)) = listed (console self) @ ys
          \<and> ALL_SECTIONS \<notin> set ys)
   \<and> (\<exists>ys. listed (console (listEnabledSections self)) = listed (console self) @ ys
          \<and> ALL_SECTIONS \<notin> set ys)"
proof -
  have "ALL_SECTIONS \<notin> set (getEnabledSections self)"
    by (auto simp: getEnabledSections_def)
  then show ?thesis
    using runAllSections_visited[of self]
      listSections_loop[of "test_sections self" "print Available_sections self"]
      listEnabledSections_loop[of "test_sections self" "print Enabled_sections self"]
    by (simp add: enableAllSections_def disableAllSections_def sweep_keeps_key listSections_def
        listEnabledSections_def print_def listed_append)
qed

lemma paused_registry:
  "map (\<lambda>(k, s). (k, enabled s, length (tests s))) (test_sections paused) =
     [(0, True, 5), (1, False, 3), (2, True, 4), (3, True, 4), (4, True, 4), (5, True, 4), (6, True, 0)]"
  by (simp add: paused_def enableSection_def bench_def fresh_def construction_defs section_defs)

lemma paused_returns:
  "\<forall>sec \<in> set (map fst (test_sections paused)).
      isSectionEnabled sec paused \<longrightarrow> (\<forall>w. all_return (cases_of sec paused) w)"
  by (auto simp: paused_def enableSection_def isSectionEnabled_def cases_of_def bench_def
      fresh_def construction_defs section_defs placeholder_def)

theorem all_sections_key_is_never_iterated_witness:
  "visited (console (final (runAllSections paused))) =
     visited (console paused) @ [0, 1, 2, 3, 4, 5]
   \<and> (\<exists>xs. visited (console (final (runAllSections paused))) = visited (console paused) @ xs
          \<and> ALL_SECTIONS \<notin> set xs)
   \<and> isSectionEnabled ALL_SECTIONS (disableAllSections paused)
   \<and> getEnabledSections (disableAllSections paused) = []
   \<and> getEnabledSections (enableAllSections (disableAllSections paused)) = [0, 1, 2, 3, 4, 5]
   \<and> listed (console (listSections paused)) = [0, 1, 2, 3, 4, 5]
   \<and> listed (console (listEnabledSections paused)) = [0, 2, 3, 4, 5]"
proof -
  have keys: "map fst (test_sections paused) = [0, 1, 2, 3, 4, 5, 6]"
    using paused_registry[THEN arg_cong[where f = "map fst"]]
    by (simp add: comp_def case_prod_unfold)
  have "visited (console (final (runAllSections paused))) =
     visited (console paused) @ [0, 1, 2, 3, 4, 5]"
    using runAllSections_returns[OF paused_returns] by (simp add: keys section_defs)
  moreover have "isSectionEnabled ALL_SECTIONS (disableAllSections paused)
   \<and> getEnabledSections (disableAllSections paused) = []
   \<and> getEnabledSections (enableAllSections (disableAllSections paused)) = [0, 1, 2, 3, 4, 5]
   \<and> listed (console (listSections paused)) = [0, 1, 2, 3, 4, 5]
   \<and> listed (console (listEnabledSections paused)) = [0, 2, 3, 4, 5]"
    by (simp add: paused_def enableSection_def runSection_def bench_def fresh_def
      construction_defs section_defs passing_def failing_def placeholder_def print_def
      isSectionEnabled_def getEnabledSections_def enableAllSections_def disableAllSections_def
      listSections_def listEnabledSections_def)
  ultimately show ?thesis
    using all_sections_key_is_never_iterated[of paused] by simp
qed










text \<open>What the SPI section with the throwing test records: both tests, the second as an error.\<close>

lemma spi_initialization_section:
  "map_option (map message_spi)
     (results (sectionResults (final (runSection_spi ticking suite_throwing_end 0 (sketch_spi_new 0))) ! 0))
     = Some [''PASSED'', ''ERROR'']"
  by (simp add: runSection_spi_def section_tests_def suite_throwing_end_def sketch_spi_new_def
      TOTAL_SECTIONS_def SECTION_NAMES_def Let_def print_spi_def printSectionResults_def
      runTest_def returning_def fresh_result_def numeral_eq_Suc final_def)

text \<open>
  C1 does not hold of the code: the success rate of a section and of a whole run is
  computed by an unguarded division. \<^verbatim>\<open>runSection(ALL_SECTIONS)\<close> on the constructed harness
  (the section is registered, enabled and has no test) prints the rate 0 * 100.0 / 0, which
  is not a number, and so does \<^verbatim>\<open>runAllSections\<close> after \<^verbatim>\<open>disableAllSections\<close>; only
  \<^verbatim>\<open>getAverageExecutionTime\<close> tests for an empty result list and returns 0.
\<close>

theorem success_rate_divides_by_zero_count:
  "console (final (runSection ALL_SECTIONS fresh)) =
     [Section_header ALL_SECTIONS ''All GPIO Tests'' ''Runs all GPIO test sections in sequence'',
      Section_summary ''All GPIO Tests'' 0 0 0 NaN]
   \<and> last (console (final (runAllSections (disableAllSections fresh)))) =
       Overall_summary 0 0 0 NaN 0
   \<and> getAverageExecutionTime fresh = Finite 0"
  by (simp add: runSection_def runAllSections_def printOverallSummary_def disableAllSections_def
      enableSection_def getAverageExecutionTime_def fresh_def construction_defs section_defs
      print_def ddiv_def final_def)

end
